theory Spec2Isabelle
  imports Main
begin

section \<open>MQTTSender: the readiness check and the topic fan-out\<close>

text \<open>
  A shallow embedding of \<^verbatim>\<open>src/lib/mqtt_sender.py\<close>. The class talks to three
  collaborators: the paho client held in \<^verbatim>\<open>self.client\<close>, the \<^verbatim>\<open>logging\<close> module and
  \<^verbatim>\<open>time.sleep\<close>. Every call on one of them is recorded, in program order, as an
  event of a trace; the answers of the client are parameters of the model.
\<close>

subsection \<open>Effects\<close>

text \<open>
  One constructor per call the source makes on a collaborator. The payload and the
  properties of a publish are opaque to the class, so they are type parameters.
  \<^item> \<open>Connect\<close>: the inherited \<^verbatim>\<open>self._connect(username, password, hostname, port)\<close>;
  \<^item> \<open>LoopStart\<close>, \<open>LoopStop force\<close>: \<^verbatim>\<open>self.client.loop_start()\<close>, \<^verbatim>\<open>self.client.loop_stop(force=...)\<close>;
  \<^item> \<open>Sleep n\<close>: \<^verbatim>\<open>time.sleep(n)\<close>;
  \<^item> \<open>IsConnected b\<close>: a call of \<^verbatim>\<open>self.client.is_connected()\<close> that answered \<open>b\<close>;
  \<^item> \<open>SetOnPublish\<close>: the assignment \<^verbatim>\<open>self.client.on_publish = self.on_publish\<close>;
  \<^item> \<open>ClientPublish\<close>: \<^verbatim>\<open>self.client.publish(topic, payload, qos, retain, properties)\<close>.
\<close>

datatype ('pl, 'pr) event =
    LogInfo string
  | LogDebug string
  | LogCritical string
  | Connect string string string int
  | LoopStart
  | LoopStop bool
  | Sleep nat
  | IsConnected bool
  | SetOnPublish
  | ClientPublish string 'pl int bool 'pr

text \<open>
  The world outside the object: the seconds slept so far and the calls made so far.
\<close>

record ('pl, 'pr) world =
  clock :: nat
  trace :: "('pl, 'pr) event list"

text \<open>
  How a call can end other than by returning: an exception \<open>e\<close> raised by a
  collaborator, or the \<^verbatim>\<open>SystemExit\<close> that the builtin \<^verbatim>\<open>exit(code)\<close> raises.
\<close>

datatype 'e exn = Raised 'e | SystemExit int

definition emit :: "('pl, 'pr) event \<Rightarrow> ('pl, 'pr) world \<Rightarrow> ('pl, 'pr) world" where
  "emit e s = s\<lparr>trace := trace s @ [e]\<rparr>"

text \<open>\<^verbatim>\<open>time.sleep(n)\<close>: the clock advances by \<open>n\<close> seconds.\<close>

definition sleep :: "nat \<Rightarrow> ('pl, 'pr) world \<Rightarrow> ('pl, 'pr) world" where
  "sleep n s = emit (Sleep n) (s\<lparr>clock := clock s + n\<rparr>)"

text \<open>
  \<^verbatim>\<open>self.client.is_connected()\<close>: the liveness predicate \<open>live\<close> of the connection is a
  parameter, a function of the whole seconds that have elapsed; a query reads it at
  the current clock. Two queries with no sleep between them (the last poll of the loop
  and the query of line 63) therefore get the same answer: a connection that comes up
  or drops between two such calls is outside the model.
\<close>

definition is_connected ::
  "(nat \<Rightarrow> bool) \<Rightarrow> ('pl, 'pr) world \<Rightarrow> bool \<times> ('pl, 'pr) world" where
  "is_connected live s = (live (clock s), emit (IsConnected (live (clock s))) s)"

subsection \<open>Rendering of numbers in log messages\<close>

definition digit_char :: "nat \<Rightarrow> char" where
  "digit_char d = ''0123456789'' ! d"

text \<open>Python's \<^verbatim>\<open>str\<close> on a non-negative integer, as the f-strings apply it.\<close>

fun str_nat :: "nat \<Rightarrow> string" where
  "str_nat n =
     (if n < 10 then [digit_char n] else str_nat (n div 10) @ [digit_char (n mod 10)])"

definition str_int :: "int \<Rightarrow> string" where
  "str_int i = (if i < 0 then ''-'' @ str_nat (nat (- i)) else str_nat (nat i))"

declare str_nat.simps [simp del]

subsection \<open>The readiness check\<close>

text \<open>Python's \<^verbatim>\<open>range(n)\<close> for an integer \<open>n\<close>: empty when \<open>n \<le> 0\<close>.\<close>

definition range_py :: "int \<Rightarrow> nat list" where
  "range_py n = [0..<nat n]"

text \<open>
  Lines 56 to 60, the loop over \<^verbatim>\<open>second\<close>:
  \<^verbatim>\<open>
  for second in range(max(1, TIMEOUT)):
      time.sleep(1)
      if self.client.is_connected():
          logging.debug(f'MQTTSender connected after {second} seconds')
          break
  \<close>
  The list holds the values of \<^verbatim>\<open>second\<close> still to come; \<^verbatim>\<open>break\<close> drops them.
\<close>

fun poll_loop ::
  "(nat \<Rightarrow> bool) \<Rightarrow> nat list \<Rightarrow> ('pl, 'pr) world \<Rightarrow> ('pl, 'pr) world" where
  "poll_loop live [] s = s"
| "poll_loop live (second # rest) s =
     (let s1 = sleep 1 s;
          (connected, s2) = is_connected live s1
      in if connected
         then emit (LogDebug (''MQTTSender connected after '' @ str_nat second @ '' seconds'')) s2
         else poll_loop live rest s2)"

text \<open>
  \<^verbatim>\<open>test_connection\<close>, lines 53 to 68. \<open>timeout\<close> is the value of
  \<^verbatim>\<open>environment.get('MQTT_CLIENT_CONNECTION_TIMEOUT_SECONDS')\<close>, an integer.
  \<^verbatim>\<open>exit(-1)\<close> ends the call before \<^verbatim>\<open>loop_stop\<close> is reached.
\<close>

definition test_connection ::
  "(nat \<Rightarrow> bool) \<Rightarrow> int \<Rightarrow> ('pl, 'pr) world \<Rightarrow> ('e exn + unit) \<times> ('pl, 'pr) world" where
  "test_connection live timeout s =
     (let s1 = emit LoopStart s;
          s2 = poll_loop live (range_py (max 1 timeout)) s1;
          (connected, s3) = is_connected live s2
      in if \<not> connected
         then (Inl (SystemExit (- 1)),
               emit (LogCritical ''MQTTSender timed out while connecting'') s3)
         else (Inr (), emit (LoopStop True) s3))"

subsection \<open>The fan-out\<close>

text \<open>
  The object after construction. \<^verbatim>\<open>self.client\<close> is the collaborator whose behaviour
  the parameters \<open>live\<close> and \<open>raises\<close> give.
\<close>

record sender =
  client_type :: string
  topics :: "string list"

text \<open>
  \<^verbatim>\<open>_publish\<close>, line 96: one call of the client's publish, whose exception, if any, is
  not caught. \<open>raises\<close> tells for each call whether the client returns (\<open>None\<close>) or
  raises (\<open>Some e\<close>).
\<close>

definition underscore_publish ::
  "(string \<Rightarrow> 'pl \<Rightarrow> int \<Rightarrow> bool \<Rightarrow> 'pr \<Rightarrow> 'e option) \<Rightarrow>
   string \<Rightarrow> 'pl \<Rightarrow> int \<Rightarrow> bool \<Rightarrow> 'pr \<Rightarrow> ('pl, 'pr) world \<Rightarrow>
   ('e exn + unit) \<times> ('pl, 'pr) world" where
  "underscore_publish raises topic payload qos retain properties s =
     (let s1 = emit (ClientPublish topic payload qos retain properties) s
      in case raises topic payload qos retain properties of
           None \<Rightarrow> (Inr (), s1)
         | Some e \<Rightarrow> (Inl (Raised e), s1))"

text \<open>Lines 81 and 82: \<^verbatim>\<open>for topic in self.topics: self._publish(...)\<close>.\<close>

fun publish_loop ::
  "(string \<Rightarrow> 'pl \<Rightarrow> int \<Rightarrow> bool \<Rightarrow> 'pr \<Rightarrow> 'e option) \<Rightarrow>
   string list \<Rightarrow> 'pl \<Rightarrow> int \<Rightarrow> bool \<Rightarrow> 'pr \<Rightarrow> ('pl, 'pr) world \<Rightarrow>
   ('e exn + unit) \<times> ('pl, 'pr) world" where
  "publish_loop raises [] payload qos retain properties s = (Inr (), s)"
| "publish_loop raises (topic # rest) payload qos retain properties s =
     (case underscore_publish raises topic payload qos retain properties s of
        (Inl e, s1) \<Rightarrow> (Inl e, s1)
      | (Inr _, s1) \<Rightarrow> publish_loop raises rest payload qos retain properties s1)"

definition publish ::
  "(string \<Rightarrow> 'pl \<Rightarrow> int \<Rightarrow> bool \<Rightarrow> 'pr \<Rightarrow> 'e option) \<Rightarrow>
   sender \<Rightarrow> 'pl \<Rightarrow> int \<Rightarrow> bool \<Rightarrow> 'pr \<Rightarrow> ('pl, 'pr) world \<Rightarrow>
   ('e exn + unit) \<times> ('pl, 'pr) world" where
  "publish raises self payload qos retain properties s =
     publish_loop raises (topics self) payload qos retain properties s"

subsection \<open>Construction\<close>

text \<open>
  The values that \<^verbatim>\<open>environment.get\<close> returns for the keys the class reads
  (\<^verbatim>\<open>lib/util\<close> is a collaborator, so its answers are parameters). The fields are named
  after the keys, in lower case.
\<close>

record environment =
  mqtt_sender_username :: string
  mqtt_sender_password :: string
  mqtt_sender_hostname :: string
  mqtt_sender_port :: int
  mqtt_sender_topics :: "string list"
  mqtt_client_connection_timeout_seconds :: int

text \<open>
  Modelled from the spec: \<^verbatim>\<open>_connect\<close> is inherited from \<^verbatim>\<open>MQTTClient\<close>
  (\<^verbatim>\<open>lib/mqtt_client.py\<close>), whose body is not part of the sources at hand. The spec
  (section 4.1) says that the transport-level connect has been initiated by the caller
  before the readiness check is invoked: one \<open>Connect\<close> event, which returns or raises
  as \<open>connect_raises\<close> tells.
\<close>

definition underscore_connect ::
  "(string \<Rightarrow> string \<Rightarrow> string \<Rightarrow> int \<Rightarrow> 'e option) \<Rightarrow>
   string \<Rightarrow> string \<Rightarrow> string \<Rightarrow> int \<Rightarrow> ('pl, 'pr) world \<Rightarrow>
   ('e exn + unit) \<times> ('pl, 'pr) world" where
  "underscore_connect connect_raises username password hostname port s =
     (let s1 = emit (Connect username password hostname port) s
      in case connect_raises username password hostname port of
           None \<Rightarrow> (Inr (), s1)
         | Some e \<Rightarrow> (Inl (Raised e), s1))"

text \<open>
  Lines 39 to 42: \<^verbatim>\<open>self.topics = []\<close>, then each configured topic is appended and
  logged. The second argument is \<^verbatim>\<open>self.topics\<close> so far.
\<close>

fun topics_loop ::
  "string list \<Rightarrow> string list \<Rightarrow> ('pl, 'pr) world \<Rightarrow> string list \<times> ('pl, 'pr) world" where
  "topics_loop [] self_topics s = (self_topics, s)"
| "topics_loop (topic # rest) self_topics s =
     topics_loop rest (self_topics @ [topic])
       (emit (LogInfo (''MQTTSender will publish to topic '' @ [CHR 0x22] @ topic @ [CHR 0x22])) s)"

text \<open>
  \<^verbatim>\<open>__init__\<close>, lines 16 to 42. An exception of \<^verbatim>\<open>_connect\<close> and the \<^verbatim>\<open>SystemExit\<close> of
  the readiness check leave the constructor at once: no object is handed to the
  caller.
\<close>

definition MQTTSender_init ::
  "(string \<Rightarrow> string \<Rightarrow> string \<Rightarrow> int \<Rightarrow> 'e option) \<Rightarrow> (nat \<Rightarrow> bool) \<Rightarrow>
   environment \<Rightarrow> ('pl, 'pr) world \<Rightarrow> ('e exn + sender) \<times> ('pl, 'pr) world" where
  "MQTTSender_init connect_raises live env s =
     (let username = mqtt_sender_username env;
          password = mqtt_sender_password env;
          hostname = mqtt_sender_hostname env;
          port = mqtt_sender_port env;
          s1 = emit (LogInfo (''MQTTSender setting connection to '' @ hostname @ '':''
                 @ str_int port @ '' with username '' @ username
                 @ '' and password '' @ password)) s
      in case underscore_connect connect_raises username password hostname port s1 of
           (Inl e, s2) \<Rightarrow> (Inl e, s2)
         | (Inr _, s2) \<Rightarrow>
             (let s3 = emit (LogInfo ''MQTTSender now testing connection...'') s2
              in case test_connection live (mqtt_client_connection_timeout_seconds env) s3 of
                   (Inl e, s4) \<Rightarrow> (Inl e, s4)
                 | (Inr _, s4) \<Rightarrow>
                     (let s5 = emit SetOnPublish s4;
                          (self_topics, s6) = topics_loop (mqtt_sender_topics env) [] s5
                      in (Inr \<lparr>client_type = ''MQTTSender'', topics = self_topics\<rparr>, s6))))"

subsection \<open>A process that uses the class\<close>

text \<open>
  The class has one way in: the constructor, then \<^verbatim>\<open>publish\<close> calls on the object it
  returned. \<open>process\<close> is such a caller, with the requests it makes in a list
  (payload, qos, retain, properties); an uncaught exception ends it.
\<close>

fun publish_requests ::
  "(string \<Rightarrow> 'pl \<Rightarrow> int \<Rightarrow> bool \<Rightarrow> 'pr \<Rightarrow> 'e option) \<Rightarrow> sender \<Rightarrow>
   ('pl \<times> int \<times> bool \<times> 'pr) list \<Rightarrow> ('pl, 'pr) world \<Rightarrow>
   ('e exn + unit) \<times> ('pl, 'pr) world" where
  "publish_requests raises self [] s = (Inr (), s)"
| "publish_requests raises self ((payload, qos, retain, properties) # rest) s =
     (case publish raises self payload qos retain properties s of
        (Inl e, s1) \<Rightarrow> (Inl e, s1)
      | (Inr _, s1) \<Rightarrow> publish_requests raises self rest s1)"

definition process ::
  "(string \<Rightarrow> string \<Rightarrow> string \<Rightarrow> int \<Rightarrow> 'e option) \<Rightarrow> (nat \<Rightarrow> bool) \<Rightarrow>
   (string \<Rightarrow> 'pl \<Rightarrow> int \<Rightarrow> bool \<Rightarrow> 'pr \<Rightarrow> 'e option) \<Rightarrow>
   environment \<Rightarrow> ('pl \<times> int \<times> bool \<times> 'pr) list \<Rightarrow> ('pl, 'pr) world \<Rightarrow>
   ('e exn + unit) \<times> ('pl, 'pr) world" where
  "process connect_raises live raises env requests s =
     (case MQTTSender_init connect_raises live env s of
        (Inl e, s1) \<Rightarrow> (Inl e, s1)
      | (Inr self, s1) \<Rightarrow> publish_requests raises self requests s1)"

subsection \<open>Vocabulary of the properties\<close>

text \<open>Whether an event is a transport-level publish call.\<close>

fun is_publish :: "('pl, 'pr) event \<Rightarrow> bool" where
  "is_publish (ClientPublish topic payload qos retain properties) = True"
| "is_publish _ = False"

text \<open>Whether an event is a call of \<^verbatim>\<open>loop_stop\<close>.\<close>

fun is_loop_stop :: "('pl, 'pr) event \<Rightarrow> bool" where
  "is_loop_stop (LoopStop force) = True"
| "is_loop_stop _ = False"

text \<open>The events of \<open>k\<close> loop iterations that found the connection not live.\<close>

definition failed_polls :: "nat \<Rightarrow> ('pl, 'pr) event list" where
  "failed_polls k = concat (replicate k [Sleep 1, IsConnected False])"

text \<open>Two liveness predicates: never live, and live from second \<open>k\<close> on.\<close>

definition never_live :: "nat \<Rightarrow> bool" where
  "never_live t = False"

definition live_from :: "nat \<Rightarrow> nat \<Rightarrow> bool" where
  "live_from k t = (k \<le> t)"

text \<open>Two transports: one that accepts every publish, one that rejects one topic.\<close>

definition accepts_all :: "string \<Rightarrow> 'pl \<Rightarrow> int \<Rightarrow> bool \<Rightarrow> 'pr \<Rightarrow> string option" where
  "accepts_all topic payload qos retain properties = None"

definition rejects_topic ::
  "string \<Rightarrow> string \<Rightarrow> 'pl \<Rightarrow> int \<Rightarrow> bool \<Rightarrow> 'pr \<Rightarrow> string option" where
  "rejects_topic bad topic payload qos retain properties =
     (if topic = bad then Some ''rejected'' else None)"

definition connect_ok :: "string \<Rightarrow> string \<Rightarrow> string \<Rightarrow> int \<Rightarrow> string option" where
  "connect_ok username password hostname port = None"

text \<open>A configuration with one topic and a timeout of five seconds.\<close>

definition example_environment :: environment where
  "example_environment =
     \<lparr>mqtt_sender_username = ''user'', mqtt_sender_password = ''secret'',
      mqtt_sender_hostname = ''broker'', mqtt_sender_port = 1883,
      mqtt_sender_topics = [''sensors/temp''],
      mqtt_client_connection_timeout_seconds = 5\<rparr>"

section \<open>Properties\<close>

subsection \<open>Evaluation of the vocabulary\<close>

lemma failed_polls_0: "failed_polls 0 = []"
  by (simp add: failed_polls_def)

lemma failed_polls_Suc: "failed_polls (Suc k) = Sleep 1 # IsConnected False # failed_polls k"
  by (simp add: failed_polls_def)

lemma failed_polls_1: "failed_polls (Suc 0) = [Sleep 1, IsConnected False]"
  by (simp add: failed_polls_def)

lemma failed_polls_3:
  "failed_polls 3 =
     [Sleep 1, IsConnected False, Sleep 1, IsConnected False, Sleep 1, IsConnected False]"
  by (simp add: failed_polls_def numeral_3_eq_3)

lemma str_nat_digit: "n < 10 \<Longrightarrow> str_nat n = [digit_char n]"
  by (simp add: str_nat.simps)

lemma str_nat_0: "str_nat 0 = ''0''"
  by (simp add: str_nat_digit digit_char_def)

lemma str_nat_1: "str_nat (Suc 0) = ''1''"
  by (simp add: str_nat_digit digit_char_def)

lemma length_range_py: "length (range_py n) = nat n"
  by (simp add: range_py_def)

lemma nth_range_py: "k < nat n \<Longrightarrow> range_py n ! k = k"
  by (simp add: range_py_def)

subsection \<open>The poll loop\<close>

text \<open>
  The loop never calls \<^verbatim>\<open>loop_stop\<close> or the transport's publish, and it only adds to
  the trace.
\<close>

lemma trace_poll_loop:
  "\<exists>evs. trace (poll_loop live xs s) = trace s @ evs \<and>
         (\<forall>e\<in>set evs. \<not> is_loop_stop e \<and> \<not> is_publish e)"
proof (induction xs arbitrary: s)
  case Nil
  then show ?case by simp
next
  case (Cons x xs)
  let ?s2 = "emit (IsConnected (live (clock s + 1))) (sleep 1 s)"
  show ?case
  proof (cases "live (clock s + 1)")
    case True
    then have "trace (poll_loop live (x # xs) s) = trace s @
        [Sleep 1, IsConnected True,
         LogDebug (''MQTTSender connected after '' @ str_nat x @ '' seconds'')]"
      by (simp add: is_connected_def sleep_def emit_def)
    then show ?thesis by simp
  next
    case False
    then have step: "poll_loop live (x # xs) s = poll_loop live xs ?s2"
      by (simp add: is_connected_def sleep_def emit_def)
    from Cons.IH [of ?s2] obtain evs where
      evs: "trace (poll_loop live xs ?s2) = trace ?s2 @ evs"
        "\<forall>e\<in>set evs. \<not> is_loop_stop e \<and> \<not> is_publish e"
      by blast
    have "trace ?s2 = trace s @ [Sleep 1, IsConnected (live (clock s + 1))]"
      by (simp add: emit_def sleep_def)
    with evs step have
      "trace (poll_loop live (x # xs) s) =
         trace s @ ([Sleep 1, IsConnected (live (clock s + 1))] @ evs)"
      by simp
    moreover have "\<forall>e\<in>set ([Sleep 1, IsConnected (live (clock s + 1))] @ evs).
        \<not> is_loop_stop e \<and> \<not> is_publish e"
      using evs(2) by simp
    ultimately show ?thesis by blast
  qed
qed

text \<open>Time only moves forward in the loop, and a loop that runs at all takes a second.\<close>

lemma clock_poll_loop_mono: "clock s \<le> clock (poll_loop live xs s)"
proof (induction xs arbitrary: s)
  case Nil
  then show ?case by simp
next
  case (Cons x xs)
  let ?s2 = "emit (IsConnected (live (clock s + 1))) (sleep 1 s)"
  have c2: "clock ?s2 = clock s + 1" by (simp add: emit_def sleep_def)
  show ?case
  proof (cases "live (clock s + 1)")
    case True
    then show ?thesis by (simp add: is_connected_def sleep_def emit_def)
  next
    case False
    then have "poll_loop live (x # xs) s = poll_loop live xs ?s2"
      by (simp add: is_connected_def sleep_def emit_def)
    moreover have "clock ?s2 \<le> clock (poll_loop live xs ?s2)" by (rule Cons.IH)
    ultimately show ?thesis using c2 by simp
  qed
qed

lemma clock_poll_loop_Cons: "clock s + 1 \<le> clock (poll_loop live (x # xs) s)"
proof (cases "live (clock s + 1)")
  case True
  then show ?thesis by (simp add: is_connected_def sleep_def emit_def)
next
  case False
  let ?s2 = "emit (IsConnected (live (clock s + 1))) (sleep 1 s)"
  from False have "poll_loop live (x # xs) s = poll_loop live xs ?s2"
    by (simp add: is_connected_def sleep_def emit_def)
  moreover have "clock ?s2 \<le> clock (poll_loop live xs ?s2)" by (rule clock_poll_loop_mono)
  moreover have "clock ?s2 = clock s + 1" by (simp add: emit_def sleep_def)
  ultimately show ?thesis by simp
qed

text \<open>
  If none of the polls finds the connection live, every value of \<^verbatim>\<open>second\<close> is used
  up: one sleep and one poll for each.
\<close>

lemma poll_loop_never:
  "\<forall>j. 1 \<le> j \<and> j \<le> length xs \<longrightarrow> \<not> live (clock s + j) \<Longrightarrow>
   poll_loop live xs s = s\<lparr>clock := clock s + length xs, trace := trace s @ failed_polls (length xs)\<rparr>"
proof (induction xs arbitrary: s)
  case Nil
  then show ?case by (simp add: failed_polls_def)
next
  case (Cons x xs)
  let ?s2 = "emit (IsConnected False) (sleep 1 s)"
  have nl: "\<not> live (clock s + 1)" using Cons.prems by auto
  have c2: "clock ?s2 = clock s + 1" by (simp add: emit_def sleep_def)
  have "\<forall>j. 1 \<le> j \<and> j \<le> length xs \<longrightarrow> \<not> live (clock ?s2 + j)"
  proof (intro allI impI)
    fix j assume "1 \<le> j \<and> j \<le> length xs"
    then have "1 \<le> Suc j \<and> Suc j \<le> length (x # xs)" by simp
    with Cons.prems have "\<not> live (clock s + Suc j)" by blast
    then show "\<not> live (clock ?s2 + j)" by (simp add: emit_def sleep_def)
  qed
  from Cons.IH [OF this]
  have "poll_loop live xs ?s2 = ?s2\<lparr>clock := clock ?s2 + length xs, trace := trace ?s2 @ failed_polls (length xs)\<rparr>" .
  moreover have "poll_loop live (x # xs) s = poll_loop live xs ?s2"
    using nl by (simp add: is_connected_def sleep_def emit_def)
  ultimately show ?case
    by (simp add: emit_def sleep_def failed_polls_def)
qed

text \<open>
  If the poll of iteration \<open>k\<close> (counted from 0) is the first to find the connection
  live, the loop stops there, and the message carries \<^verbatim>\<open>second\<close>, the value of that
  iteration.
\<close>

lemma poll_loop_first:
  "k < length xs \<Longrightarrow> live (clock s + Suc k) \<Longrightarrow>
   \<forall>j. 0 < j \<and> j \<le> k \<longrightarrow> \<not> live (clock s + j) \<Longrightarrow>
   poll_loop live xs s =
     s\<lparr>clock := clock s + Suc k,
       trace := trace s @ failed_polls k @
         [Sleep 1, IsConnected True,
          LogDebug (''MQTTSender connected after '' @ str_nat (xs ! k) @ '' seconds'')]\<rparr>"
proof (induction xs arbitrary: s k)
  case Nil
  then show ?case by simp
next
  case (Cons x xs)
  show ?case
  proof (cases k)
    case 0
    with Cons.prems show ?thesis
      by (simp add: is_connected_def sleep_def emit_def failed_polls_0)
  next
    case (Suc k')
    let ?s2 = "emit (IsConnected False) (sleep 1 s)"
    have nl: "\<not> live (clock s + 1)" using Cons.prems Suc by auto
    have step: "poll_loop live (x # xs) s = poll_loop live xs ?s2"
      using nl by (simp add: is_connected_def sleep_def emit_def)
    have a: "k' < length xs" using Cons.prems Suc by simp
    have b: "live (clock ?s2 + Suc k')" using Cons.prems Suc by (simp add: emit_def sleep_def)
    have c: "\<forall>j. 0 < j \<and> j \<le> k' \<longrightarrow> \<not> live (clock ?s2 + j)"
    proof (intro allI impI)
      fix j assume "0 < j \<and> j \<le> k'"
      then have "0 < Suc j \<and> Suc j \<le> k" using Suc by simp
      with Cons.prems have "\<not> live (clock s + Suc j)" by blast
      then show "\<not> live (clock ?s2 + j)" by (simp add: emit_def sleep_def)
    qed
    from Cons.IH [OF a b c] step Suc show ?thesis
      by (simp add: emit_def sleep_def failed_polls_Suc)
  qed
qed

subsection \<open>The two ways out of the readiness check\<close>

lemma test_connection_connects:
  assumes "0 < k" and "k \<le> nat (max 1 timeout)" and "live (clock s + k)"
    and "\<forall>j. 0 < j \<and> j < k \<longrightarrow> \<not> live (clock s + j)"
  shows "test_connection live timeout s =
    (Inr (),
     s\<lparr>clock := clock s + k,
       trace := trace s @ [LoopStart] @ failed_polls (k - 1) @
         [Sleep 1, IsConnected True,
          LogDebug (''MQTTSender connected after '' @ str_nat (k - 1) @ '' seconds''),
          IsConnected True, LoopStop True]\<rparr>)"
proof -
  let ?s1 = "emit LoopStart s"
  let ?xs = "range_py (max 1 timeout)"
  obtain m where k: "k = Suc m" using assms(1) by (cases k) auto
  have a: "m < length ?xs" using assms(2) k by (simp add: length_range_py)
  have b: "live (clock ?s1 + Suc m)" using assms(3) k by (simp add: emit_def)
  have c: "\<forall>j. 0 < j \<and> j \<le> m \<longrightarrow> \<not> live (clock ?s1 + j)"
    using assms(4) k by (simp add: emit_def)
  have n: "?xs ! m = m" using a by (simp add: nth_range_py length_range_py)
  have "poll_loop live ?xs ?s1 =
     ?s1\<lparr>clock := clock ?s1 + Suc m,
       trace := trace ?s1 @ failed_polls m @
         [Sleep 1, IsConnected True,
          LogDebug (''MQTTSender connected after '' @ str_nat m @ '' seconds'')]\<rparr>"
    using poll_loop_first [OF a b c] n by simp
  then show ?thesis
    using assms(3) k by (simp add: test_connection_def is_connected_def emit_def)
qed

lemma test_connection_times_out:
  assumes "\<forall>j. 0 < j \<and> j \<le> nat (max 1 timeout) \<longrightarrow> \<not> live (clock s + j)"
  shows "test_connection live timeout s =
    (Inl (SystemExit (- 1)),
     s\<lparr>clock := clock s + nat (max 1 timeout),
       trace := trace s @ [LoopStart] @ failed_polls (nat (max 1 timeout)) @
         [IsConnected False, LogCritical ''MQTTSender timed out while connecting'']\<rparr>)"
proof -
  let ?s1 = "emit LoopStart s"
  let ?xs = "range_py (max 1 timeout)"
  have c: "\<forall>j. 1 \<le> j \<and> j \<le> length ?xs \<longrightarrow> \<not> live (clock ?s1 + j)"
    using assms by (simp add: emit_def length_range_py)
  have nl: "\<not> live (clock s + nat (max 1 timeout))"
    using assms by simp
  have "poll_loop live ?xs ?s1 =
      ?s1\<lparr>clock := clock ?s1 + length ?xs, trace := trace ?s1 @ failed_polls (length ?xs)\<rparr>"
    by (rule poll_loop_never [OF c])
  then show ?thesis
    using nl by (simp add: test_connection_def is_connected_def emit_def length_range_py)
qed

lemma clock_test_connection:
  "clock s + 1 \<le> clock (snd (test_connection live timeout s))"
proof -
  have "0 < nat (max 1 timeout)" by simp
  then have "range_py (max 1 timeout) = 0 # [Suc 0..<nat (max 1 timeout)]"
    unfolding range_py_def by (rule upt_conv_Cons)
  then obtain n where xs: "range_py (max 1 timeout) = 0 # n" ..
  have "clock (emit LoopStart s) + 1 \<le> clock (poll_loop live (0 # n) (emit LoopStart s))"
    by (rule clock_poll_loop_Cons)
  then show ?thesis
    by (simp add: test_connection_def xs is_connected_def emit_def Let_def split: prod.splits)
qed

lemma test_connection_cases:
  assumes "test_connection live timeout s = (r, s')"
  shows "(r = Inr () \<and> live (clock s') \<and>
          (\<exists>evs. trace s' = trace s @ evs @ [IsConnected True, LoopStop True] \<and>
                 (\<forall>e\<in>set evs. \<not> is_loop_stop e \<and> \<not> is_publish e)))
       \<or> (r = Inl (SystemExit (- 1)) \<and> \<not> live (clock s') \<and>
          (\<exists>evs. trace s' = trace s @ evs @
                   [IsConnected False, LogCritical ''MQTTSender timed out while connecting''] \<and>
                 (\<forall>e\<in>set evs. \<not> is_loop_stop e \<and> \<not> is_publish e)))"
proof -
  let ?s1 = "emit LoopStart s"
  let ?s2 = "poll_loop live (range_py (max 1 timeout)) ?s1"
  obtain evs where evs: "trace ?s2 = trace ?s1 @ evs"
    "\<forall>e\<in>set evs. \<not> is_loop_stop e \<and> \<not> is_publish e"
    using trace_poll_loop [of live "range_py (max 1 timeout)" ?s1] by blast
  have t2: "trace ?s2 = trace s @ (LoopStart # evs)"
    using evs(1) by (simp add: emit_def)
  have ok: "\<forall>e\<in>set (LoopStart # evs). \<not> is_loop_stop e \<and> \<not> is_publish e"
    using evs(2) by simp
  show ?thesis
  proof (cases "live (clock ?s2)")
    case True
    with assms have r: "r = Inr ()"
      and s': "s' = emit (LoopStop True) (emit (IsConnected True) ?s2)"
      by (simp_all add: test_connection_def is_connected_def)
    have "trace s' = trace s @ (LoopStart # evs) @ [IsConnected True, LoopStop True]"
      using s' t2 by (simp add: emit_def)
    moreover have "live (clock s')" using True s' by (simp add: emit_def)
    ultimately show ?thesis using r ok by blast
  next
    case False
    with assms have r: "r = Inl (SystemExit (- 1))"
      and s': "s' = emit (LogCritical ''MQTTSender timed out while connecting'')
                  (emit (IsConnected False) ?s2)"
      by (simp_all add: test_connection_def is_connected_def)
    have "trace s' = trace s @ (LoopStart # evs) @
        [IsConnected False, LogCritical ''MQTTSender timed out while connecting'']"
      using s' t2 by (simp add: emit_def)
    moreover have "\<not> live (clock s')" using False s' by (simp add: emit_def)
    ultimately show ?thesis using r ok by blast
  qed
qed

subsection \<open>Readiness check: the specified behaviour\<close>

text \<open>
  C2. If the liveness predicate never becomes true and the configured timeout is
  positive, \<^verbatim>\<open>test_connection\<close> sleeps one second exactly \<open>timeout\<close> times (the
  clock advances by \<open>timeout\<close>, each sleep followed by a poll that answers false), then
  finds the connection still not live, logs at critical severity and ends in
  \<^verbatim>\<open>SystemExit(-1)\<close>, a non-zero exit status. Seconds are counted from the clock at entry.
\<close>

theorem timeout_exits:
  assumes "0 < timeout" and "\<forall>t. \<not> live t"
  shows "test_connection live timeout s =
    (Inl (SystemExit (- 1)),
     s\<lparr>clock := clock s + nat timeout,
       trace := trace s @ [LoopStart] @ failed_polls (nat timeout) @
         [IsConnected False, LogCritical ''MQTTSender timed out while connecting'']\<rparr>)"
proof -
  have m: "max 1 timeout = timeout" using assms(1) by simp
  have "\<forall>j. 0 < j \<and> j \<le> nat (max 1 timeout) \<longrightarrow> \<not> live (clock s + j)"
    using assms(2) by simp
  from test_connection_times_out [OF this] show ?thesis
    by (simp only: m)
qed

theorem timeout_exits_witness:
  "(0::int) < 3 \<and> (\<forall>t. \<not> never_live t) \<and>
   test_connection never_live 3 \<lparr>clock = 0, trace = []\<rparr> =
     (Inl (SystemExit (- 1)),
      \<lparr>clock = 3,
       trace = [LoopStart, Sleep 1, IsConnected False, Sleep 1, IsConnected False,
                Sleep 1, IsConnected False, IsConnected False,
                LogCritical ''MQTTSender timed out while connecting'']\<rparr>)"
proof -
  have h1: "(0::int) < 3" by simp
  have h2: "\<forall>t. \<not> never_live t" by (simp add: never_live_def)
  have "test_connection never_live 3 \<lparr>clock = 0, trace = []\<rparr> =
     (Inl (SystemExit (- 1)),
      \<lparr>clock = 3,
       trace = [LoopStart, Sleep 1, IsConnected False, Sleep 1, IsConnected False,
                Sleep 1, IsConnected False, IsConnected False,
                LogCritical ''MQTTSender timed out while connecting'']\<rparr>)"
    by (simp add: timeout_exits [OF h1 h2] failed_polls_3)
  with h1 h2 show ?thesis by blast
qed

text \<open>
  C3. For every configured timeout \<open>\<le> 0\<close> the loop runs over \<^verbatim>\<open>range(1)\<close>: one
  iteration, one sleep of one second, whatever the liveness predicate says. The check
  then ends one second after it was entered, with success if the connection is live at
  that second and with the timeout exit otherwise.
\<close>

theorem nonpositive_timeout_one_second:
  assumes "timeout \<le> 0"
  shows "range_py (max 1 timeout) = [0] \<and>
    test_connection live timeout s =
      (if live (clock s + 1)
       then (Inr (),
             s\<lparr>clock := clock s + 1,
               trace := trace s @
                 [LoopStart, Sleep 1, IsConnected True,
                  LogDebug ''MQTTSender connected after 0 seconds'',
                  IsConnected True, LoopStop True]\<rparr>)
       else (Inl (SystemExit (- 1)),
             s\<lparr>clock := clock s + 1,
               trace := trace s @
                 [LoopStart, Sleep 1, IsConnected False, IsConnected False,
                  LogCritical ''MQTTSender timed out while connecting'']\<rparr>))"
proof -
  have m: "max 1 timeout = 1" using assms by simp
  have r: "range_py (max 1 timeout) = [0]" by (simp add: m range_py_def)
  show ?thesis
    by (simp add: r test_connection_def is_connected_def sleep_def emit_def str_nat_0)
qed

theorem nonpositive_timeout_one_second_witness:
  "(- 3 :: int) \<le> 0 \<and> range_py (max 1 (- 3)) = [0] \<and>
   test_connection never_live (- 3) \<lparr>clock = 0, trace = []\<rparr> =
     (Inl (SystemExit (- 1)),
      \<lparr>clock = 1,
       trace = [LoopStart, Sleep 1, IsConnected False, IsConnected False,
                LogCritical ''MQTTSender timed out while connecting'']\<rparr>)"
proof -
  have h: "(- 3 :: int) \<le> 0" by simp
  from nonpositive_timeout_one_second [OF h, of never_live "\<lparr>clock = 0, trace = []\<rparr>"] h
  show ?thesis by (simp add: never_live_def)
qed

text \<open>
  C4. If the liveness predicate first becomes true at second \<open>k\<close> after entry, with
  \<open>0 < k \<le> timeout\<close>, the check returns normally after exactly \<open>k\<close> one-second sleeps
  (\<open>k - 1\<close> polls that fail, then one that succeeds): the clock has advanced by \<open>k\<close>,
  not by \<open>timeout\<close>, the rest of the loop is skipped, and there is no exit.
\<close>

theorem short_circuit:
  assumes "0 < k" and "int k \<le> timeout" and "live (clock s + k)"
    and "\<forall>t<k. \<not> live (clock s + t)"
  shows "test_connection live timeout s =
    (Inr (),
     s\<lparr>clock := clock s + k,
       trace := trace s @ [LoopStart] @ failed_polls (k - 1) @
         [Sleep 1, IsConnected True,
          LogDebug (''MQTTSender connected after '' @ str_nat (k - 1) @ '' seconds''),
          IsConnected True, LoopStop True]\<rparr>)"
proof -
  have a: "k \<le> nat (max 1 timeout)" using assms(2) by simp
  have b: "\<forall>j. 0 < j \<and> j < k \<longrightarrow> \<not> live (clock s + j)" using assms(4) by simp
  show ?thesis by (rule test_connection_connects [OF assms(1) a assms(3) b])
qed

theorem short_circuit_witness:
  "0 < (2::nat) \<and> int 2 \<le> 5 \<and> live_from 2 (0 + 2) \<and>
   \<not> live_from 2 (0 + 0) \<and> \<not> live_from 2 (0 + 1) \<and>
   test_connection (live_from 2) 5 \<lparr>clock = 0, trace = []\<rparr> =
     (Inr (),
      \<lparr>clock = 2,
       trace = [LoopStart, Sleep 1, IsConnected False, Sleep 1, IsConnected True,
                LogDebug ''MQTTSender connected after 1 seconds'',
                IsConnected True, LoopStop True]\<rparr>)"
proof -
  have h1: "0 < (2::nat)" by simp
  have h2: "int 2 \<le> 5" by simp
  have h3: "live_from 2 (clock \<lparr>clock = 0, trace = []\<rparr> + 2)" by (simp add: live_from_def)
  have h4: "\<forall>t<2. \<not> live_from 2 (clock \<lparr>clock = 0, trace = []\<rparr> + t)"
    by (simp add: live_from_def)
  have "test_connection (live_from 2) 5 \<lparr>clock = 0, trace = []\<rparr> =
     (Inr (),
      \<lparr>clock = 2,
       trace = [LoopStart, Sleep 1, IsConnected False, Sleep 1, IsConnected True,
                LogDebug ''MQTTSender connected after 1 seconds'',
                IsConnected True, LoopStop True]\<rparr>)"
    by (simp add: short_circuit [OF h1 h2 h3 h4] failed_polls_1 str_nat_1)
  moreover have "live_from 2 (0 + 2)" and "\<not> live_from 2 (0 + 0)" and "\<not> live_from 2 (0 + 1)"
    by (simp_all add: live_from_def)
  ultimately show ?thesis using h1 h2 by blast
qed

text \<open>
  C7, as stated, fails on the timeout path: with a predicate that is never true and a
  timeout of one second the check ends in \<^verbatim>\<open>SystemExit(-1)\<close> and \<^verbatim>\<open>loop_stop\<close> has
  not been called.
\<close>

theorem loop_not_stopped_on_timeout:
  "(test_connection never_live 1 \<lparr>clock = 0, trace = []\<rparr>
      :: (string exn + unit) \<times> (string, unit) world) =
     (Inl (SystemExit (- 1)),
      \<lparr>clock = 1,
       trace = [LoopStart, Sleep 1, IsConnected False, IsConnected False,
                LogCritical ''MQTTSender timed out while connecting'']\<rparr>)
   \<and> LoopStop True \<notin> set (trace (snd (test_connection never_live 1 \<lparr>clock = 0, trace = []\<rparr>
      :: (string exn + unit) \<times> (string, unit) world)))"
  by (simp add: test_connection_def range_py_def is_connected_def sleep_def emit_def
      never_live_def)

text \<open>
  C7, amended. Every run of \<^verbatim>\<open>test_connection\<close> ends in one of two ways. Either the
  final liveness query answers true: then the call returns normally and its last
  action is \<^verbatim>\<open>loop_stop(force=True)\<close>, the only \<^verbatim>\<open>loop_stop\<close> of the call. Or the final
  query answers false: then the call ends in \<^verbatim>\<open>SystemExit(-1)\<close> and has made no call
  of \<^verbatim>\<open>loop_stop\<close> at all.
\<close>

theorem loop_stopped_when_check_returns:
  assumes "test_connection live timeout s = (r, s')"
  shows "(r = Inr () \<and> live (clock s') \<and>
          (\<exists>evs. trace s' = trace s @ evs @ [LoopStop True] \<and>
                 (\<forall>e\<in>set evs. \<not> is_loop_stop e)))
       \<or> (r = Inl (SystemExit (- 1)) \<and> \<not> live (clock s') \<and>
          (\<exists>evs. trace s' = trace s @ evs \<and> (\<forall>e\<in>set evs. \<not> is_loop_stop e)))"
proof -
  from test_connection_cases [OF assms] show ?thesis
  proof
    assume "r = Inr () \<and> live (clock s') \<and>
          (\<exists>evs. trace s' = trace s @ evs @ [IsConnected True, LoopStop True] \<and>
                 (\<forall>e\<in>set evs. \<not> is_loop_stop e \<and> \<not> is_publish e))"
    then obtain evs where r: "r = Inr ()" "live (clock s')"
      and t: "trace s' = trace s @ evs @ [IsConnected True, LoopStop True]"
      and ok: "\<forall>e\<in>set evs. \<not> is_loop_stop e \<and> \<not> is_publish e"
      by blast
    have "trace s' = trace s @ (evs @ [IsConnected True]) @ [LoopStop True]"
      using t by simp
    moreover have "\<forall>e\<in>set (evs @ [IsConnected True]). \<not> is_loop_stop e"
      using ok by simp
    ultimately show ?thesis using r by blast
  next
    assume "r = Inl (SystemExit (- 1)) \<and> \<not> live (clock s') \<and>
          (\<exists>evs. trace s' = trace s @ evs @
                   [IsConnected False, LogCritical ''MQTTSender timed out while connecting''] \<and>
                 (\<forall>e\<in>set evs. \<not> is_loop_stop e \<and> \<not> is_publish e))"
    then obtain evs where r: "r = Inl (SystemExit (- 1))" "\<not> live (clock s')"
      and t: "trace s' = trace s @ evs @
                [IsConnected False, LogCritical ''MQTTSender timed out while connecting'']"
      and ok: "\<forall>e\<in>set evs. \<not> is_loop_stop e \<and> \<not> is_publish e"
      by blast
    have "\<forall>e\<in>set (evs @
        [IsConnected False, LogCritical ''MQTTSender timed out while connecting'']).
        \<not> is_loop_stop e"
      using ok by simp
    with t r show ?thesis by blast
  qed
qed

theorem loop_stopped_when_check_returns_witness:
  "(test_connection (live_from 1) 5 \<lparr>clock = 0, trace = []\<rparr>
      :: (string exn + unit) \<times> (string, unit) world) =
     (Inr (),
      \<lparr>clock = 1,
       trace = [LoopStart, Sleep 1, IsConnected True,
                LogDebug ''MQTTSender connected after 0 seconds'',
                IsConnected True, LoopStop True]\<rparr>) \<and>
   live_from 1 1 \<and>
   (\<exists>evs. [LoopStart, Sleep 1, IsConnected True,
           LogDebug ''MQTTSender connected after 0 seconds'',
           IsConnected True, LoopStop True] = evs @ [LoopStop True :: (string, unit) event] \<and>
          (\<forall>e\<in>set evs. \<not> is_loop_stop e))"
proof -
  have h: "(test_connection (live_from 1) 5 \<lparr>clock = 0, trace = []\<rparr>
      :: (string exn + unit) \<times> (string, unit) world) =
     (Inr (),
      \<lparr>clock = 1,
       trace = [LoopStart, Sleep 1, IsConnected True,
                LogDebug ''MQTTSender connected after 0 seconds'',
                IsConnected True, LoopStop True]\<rparr>)"
    using test_connection_connects [of 1 5 "live_from 1" "\<lparr>clock = 0, trace = []\<rparr>"]
    by (simp add: live_from_def failed_polls_0 str_nat_0)
  from loop_stopped_when_check_returns [OF h] h show ?thesis by simp
qed

text \<open>
  C9. The claim: when the predicate becomes true at second 2 and the timeout is 5, the
  debug message reports a connect after 2 seconds. The run of the code at that input:
  two sleeps, the second poll succeeds, and the message carries the loop variable
  \<^verbatim>\<open>second\<close>, which counts from 0 and is 1 there.
\<close>

theorem debug_log_off_by_one:
  "(test_connection (live_from 2) 5 \<lparr>clock = 0, trace = []\<rparr>
      :: (string exn + unit) \<times> (string, unit) world) =
     (Inr (),
      \<lparr>clock = 2,
       trace = [LoopStart, Sleep 1, IsConnected False, Sleep 1, IsConnected True,
                LogDebug ''MQTTSender connected after 1 seconds'',
                IsConnected True, LoopStop True]\<rparr>)"
  using test_connection_connects [of 2 5 "live_from 2" "\<lparr>clock = 0, trace = []\<rparr>"]
  by (simp add: live_from_def failed_polls_1 str_nat_1 numeral_2_eq_2)

text \<open>
  C10. No liveness query is made at entry: in every run the first calls are
  \<^verbatim>\<open>loop_start\<close>, a sleep of one second and only then \<^verbatim>\<open>is_connected\<close>, read at the
  second after entry, so that every run takes at least one second. Even when the
  connection is live from the start (whatever the predicate says at entry, if it is
  true one second later), the loop makes exactly one sleep and one poll, and the
  successful check has taken one second; the query of line 63 then reads the
  predicate once more at that same second.
\<close>

theorem first_poll_after_one_second:
  fixes s :: "('pl, 'pr) world"
  shows "(\<exists>rest. trace (snd (test_connection live timeout s
                              :: ('e exn + unit) \<times> ('pl, 'pr) world)) =
       trace s @ [LoopStart, Sleep 1, IsConnected (live (clock s + 1))] @ rest) \<and>
   clock s + 1 \<le> clock (snd (test_connection live timeout s
                              :: ('e exn + unit) \<times> ('pl, 'pr) world)) \<and>
   (live (clock s + 1) \<longrightarrow>
     poll_loop live (range_py (max 1 timeout)) (emit LoopStart s) =
       s\<lparr>clock := clock s + 1,
         trace := trace s @
           [LoopStart, Sleep 1, IsConnected True,
            LogDebug ''MQTTSender connected after 0 seconds'']\<rparr> \<and>
     (test_connection live timeout s :: ('e exn + unit) \<times> ('pl, 'pr) world) =
       (Inr (),
        s\<lparr>clock := clock s + 1,
          trace := trace s @
            [LoopStart, Sleep 1, IsConnected True,
             LogDebug ''MQTTSender connected after 0 seconds'',
             IsConnected True, LoopStop True]\<rparr>))"
proof (intro conjI impI)
  have "0 < nat (max 1 timeout)" by simp
  then have "range_py (max 1 timeout) = 0 # [Suc 0..<nat (max 1 timeout)]"
    unfolding range_py_def by (rule upt_conv_Cons)
  then obtain n where xs: "range_py (max 1 timeout) = 0 # n" ..
  let ?s1 = "emit LoopStart s"
  let ?s2 = "emit (IsConnected (live (clock s + 1))) (sleep 1 ?s1)"
  have t2: "trace ?s2 = trace s @ [LoopStart, Sleep 1, IsConnected (live (clock s + 1))]"
    by (simp add: emit_def sleep_def)
  have "\<exists>evs. trace (poll_loop live (0 # n) ?s1) = trace ?s2 @ evs"
  proof (cases "live (clock s + 1)")
    case True
    then show ?thesis by (simp add: is_connected_def sleep_def emit_def)
  next
    case False
    then have "poll_loop live (0 # n) ?s1 = poll_loop live n ?s2"
      by (simp add: is_connected_def sleep_def emit_def)
    with trace_poll_loop [of live n ?s2] show ?thesis by auto
  qed
  then obtain evs where "trace (poll_loop live (0 # n) ?s1) = trace ?s2 @ evs" ..
  then show "\<exists>rest. trace (snd (test_connection live timeout s
                              :: ('e exn + unit) \<times> ('pl, 'pr) world)) =
       trace s @ [LoopStart, Sleep 1, IsConnected (live (clock s + 1))] @ rest"
    using t2 by (simp add: test_connection_def xs is_connected_def emit_def Let_def
        split: prod.splits)
next
  show "clock s + 1 \<le> clock (snd (test_connection live timeout s
                              :: ('e exn + unit) \<times> ('pl, 'pr) world))"
    by (rule clock_test_connection)
next
  assume l: "live (clock s + 1)"
  have a: "0 < length (range_py (max 1 timeout))" by (simp add: length_range_py)
  have b: "live (clock (emit LoopStart s) + Suc 0)" using l by (simp add: emit_def)
  have c: "\<forall>j. 0 < j \<and> j \<le> 0 \<longrightarrow> \<not> live (clock (emit LoopStart s) + j)" by simp
  have n: "range_py (max 1 timeout) ! 0 = 0" by (simp add: nth_range_py)
  from poll_loop_first [OF a b c]
  show "poll_loop live (range_py (max 1 timeout)) (emit LoopStart s) =
       s\<lparr>clock := clock s + 1,
         trace := trace s @
           [LoopStart, Sleep 1, IsConnected True,
            LogDebug ''MQTTSender connected after 0 seconds'']\<rparr>"
    by (simp add: n failed_polls_0 str_nat_0 emit_def)
next
  assume l: "live (clock s + 1)"
  have "(test_connection live timeout s :: ('e exn + unit) \<times> ('pl, 'pr) world) =
      (Inr (),
       s\<lparr>clock := clock s + 1,
         trace := trace s @ [LoopStart] @ failed_polls (1 - 1) @
           [Sleep 1, IsConnected True,
            LogDebug (''MQTTSender connected after '' @ str_nat (1 - 1) @ '' seconds''),
            IsConnected True, LoopStop True]\<rparr>)"
    by (rule test_connection_connects) (use l in simp_all)
  then show "(test_connection live timeout s :: ('e exn + unit) \<times> ('pl, 'pr) world) =
       (Inr (),
        s\<lparr>clock := clock s + 1,
          trace := trace s @
            [LoopStart, Sleep 1, IsConnected True,
             LogDebug ''MQTTSender connected after 0 seconds'',
             IsConnected True, LoopStop True]\<rparr>)"
    by (simp add: failed_polls_0 str_nat_0)
qed

theorem first_poll_after_one_second_witness:
  "live_from 0 0 \<and> live_from 0 (0 + 1) \<and>
   (test_connection (live_from 0) 5 \<lparr>clock = 0, trace = []\<rparr>
      :: (string exn + unit) \<times> (string, unit) world) =
     (Inr (),
      \<lparr>clock = 1,
       trace = [LoopStart, Sleep 1, IsConnected True,
                LogDebug ''MQTTSender connected after 0 seconds'',
                IsConnected True, LoopStop True]\<rparr>)"
proof -
  have h: "live_from 0 (clock (\<lparr>clock = 0, trace = []\<rparr> :: (string, unit) world) + 1)"
    by (simp add: live_from_def)
  have "(test_connection (live_from 0) 5 \<lparr>clock = 0, trace = []\<rparr>
      :: (string exn + unit) \<times> (string, unit) world) =
     (Inr (),
      \<lparr>clock = 1,
       trace = [LoopStart, Sleep 1, IsConnected True,
                LogDebug ''MQTTSender connected after 0 seconds'',
                IsConnected True, LoopStop True]\<rparr>)"
    using first_poll_after_one_second
      [where live = "live_from 0" and timeout = 5
         and s = "\<lparr>clock = 0, trace = []\<rparr> :: (string, unit) world" and ?'e = string] h
    by simp
  moreover have "live_from 0 0" and "live_from 0 (0 + 1)" by (simp_all add: live_from_def)
  ultimately show ?thesis by blast
qed

subsection \<open>Fan-out\<close>

text \<open>
  The two general facts behind the claims on \<^verbatim>\<open>publish\<close>: when the transport accepts
  every topic, one call per topic is made in the order of the list; when it raises at
  a topic, the calls up to and including that one have been made, none after it, and
  the exception is the result.
\<close>

lemma publish_loop_all_accepted:
  "\<forall>topic\<in>set ts. raises topic payload qos retain properties = None \<Longrightarrow>
   publish_loop raises ts payload qos retain properties s =
     (Inr (),
      s\<lparr>trace := trace s @ map (\<lambda>topic. ClientPublish topic payload qos retain properties) ts\<rparr>)"
  by (induction ts arbitrary: s) (simp_all add: underscore_publish_def emit_def)

lemma publish_loop_fail_stop:
  "\<forall>topic\<in>set before. raises topic payload qos retain properties = None \<Longrightarrow>
   raises bad payload qos retain properties = Some e \<Longrightarrow>
   publish_loop raises (before @ bad # after) payload qos retain properties s =
     (Inl (Raised e),
      s\<lparr>trace := trace s @
          map (\<lambda>topic. ClientPublish topic payload qos retain properties) (before @ [bad])\<rparr>)"
  by (induction before arbitrary: s) (simp_all add: underscore_publish_def emit_def)

text \<open>
  C1. For every payload, qos, retain and properties, \<^verbatim>\<open>publish\<close> on a sender whose topic
  list is \<^verbatim>\<open>["a","b","c"]\<close> makes exactly three transport publish calls, for \<open>a\<close>, \<open>b\<close>
  and \<open>c\<close> in that order, each with the payload, qos, retain and properties it was
  given. The transport is taken to return normally from the calls for \<open>a\<close> and \<open>b\<close>
  (the case where one of them raises is C6); the result of \<^verbatim>\<open>publish\<close> is then what
  the third call does.
\<close>

theorem publish_three_topics:
  assumes "raises ''a'' payload qos retain properties = None"
    and "raises ''b'' payload qos retain properties = None"
  shows "publish raises \<lparr>client_type = ct, topics = [''a'', ''b'', ''c'']\<rparr>
           payload qos retain properties s =
    ((case raises ''c'' payload qos retain properties of
        None \<Rightarrow> Inr () | Some e \<Rightarrow> Inl (Raised e)),
     s\<lparr>trace := trace s @
        [ClientPublish ''a'' payload qos retain properties,
         ClientPublish ''b'' payload qos retain properties,
         ClientPublish ''c'' payload qos retain properties]\<rparr>)"
  using assms
  by (simp add: publish_def underscore_publish_def emit_def split: option.splits)

theorem publish_three_topics_witness:
  "accepts_all ''a'' ''hello'' 1 True () = None \<and>
   accepts_all ''b'' ''hello'' 1 True () = None \<and>
   publish accepts_all \<lparr>client_type = ''MQTTSender'', topics = [''a'', ''b'', ''c'']\<rparr>
     ''hello'' 1 True () \<lparr>clock = 0, trace = []\<rparr> =
   (Inr (),
    \<lparr>clock = 0,
     trace = [ClientPublish ''a'' ''hello'' 1 True (),
              ClientPublish ''b'' ''hello'' 1 True (),
              ClientPublish ''c'' ''hello'' 1 True ()]\<rparr>)"
proof -
  have a: "accepts_all ''a'' ''hello'' 1 True () = None" by (simp add: accepts_all_def)
  have b: "accepts_all ''b'' ''hello'' 1 True () = None" by (simp add: accepts_all_def)
  note three = publish_three_topics
    [where raises = accepts_all and payload = "''hello''" and qos = 1 and retain = True
       and properties = "()", OF a b]
  have "publish accepts_all \<lparr>client_type = ''MQTTSender'', topics = [''a'', ''b'', ''c'']\<rparr>
     ''hello'' 1 True () \<lparr>clock = 0, trace = []\<rparr> =
   (Inr (),
    \<lparr>clock = 0,
     trace = [ClientPublish ''a'' ''hello'' 1 True (),
              ClientPublish ''b'' ''hello'' 1 True (),
              ClientPublish ''c'' ''hello'' 1 True ()]\<rparr>)"
    by (simp add: three accepts_all_def)
  with a b show ?thesis by blast
qed

text \<open>
  C5. For every payload, qos, retain and properties, and whatever the transport would
  do, \<^verbatim>\<open>publish\<close> on a sender whose topic list is empty returns normally and leaves
  the world as it was: no transport publish call, no other call, no time spent.
\<close>

theorem publish_empty_noop:
  "publish raises \<lparr>client_type = ct, topics = []\<rparr> payload qos retain properties s
     = (Inr (), s)"
  by (simp add: publish_def)

text \<open>
  C6. In a fan-out over \<^verbatim>\<open>["a","b","c"]\<close>, if the transport's publish call for \<open>b\<close>
  raises \<open>e\<close> (the call for \<open>a\<close> having returned, or \<open>b\<close> would not have been reached),
  then the calls made are the one for \<open>a\<close> and the one for \<open>b\<close>, no call is made for
  \<open>c\<close>, and \<open>e\<close> itself is what \<^verbatim>\<open>publish\<close> raises.
\<close>

theorem publish_fail_stop:
  assumes "raises ''a'' payload qos retain properties = None"
    and "raises ''b'' payload qos retain properties = Some e"
  shows "publish raises \<lparr>client_type = ct, topics = [''a'', ''b'', ''c'']\<rparr>
           payload qos retain properties s =
    (Inl (Raised e),
     s\<lparr>trace := trace s @
        [ClientPublish ''a'' payload qos retain properties,
         ClientPublish ''b'' payload qos retain properties]\<rparr>)"
  using assms
  by (simp add: publish_def underscore_publish_def emit_def)

theorem publish_fail_stop_witness:
  "rejects_topic ''b'' ''a'' ''hello'' 1 True () = None \<and>
   rejects_topic ''b'' ''b'' ''hello'' 1 True () = Some ''rejected'' \<and>
   publish (rejects_topic ''b'') \<lparr>client_type = ''MQTTSender'', topics = [''a'', ''b'', ''c'']\<rparr>
     ''hello'' 1 True () \<lparr>clock = 0, trace = []\<rparr> =
   (Inl (Raised ''rejected''),
    \<lparr>clock = 0,
     trace = [ClientPublish ''a'' ''hello'' 1 True (),
              ClientPublish ''b'' ''hello'' 1 True ()]\<rparr>)"
proof -
  have a: "rejects_topic ''b'' ''a'' ''hello'' 1 True () = None"
    by (simp add: rejects_topic_def)
  have b: "rejects_topic ''b'' ''b'' ''hello'' 1 True () = Some ''rejected''"
    by (simp add: rejects_topic_def)
  note stop = publish_fail_stop
    [where raises = "rejects_topic ''b''" and payload = "''hello''" and qos = 1
       and retain = True and properties = "()" and e = "''rejected''", OF a b]
  have "publish (rejects_topic ''b'')
     \<lparr>client_type = ''MQTTSender'', topics = [''a'', ''b'', ''c'']\<rparr>
     ''hello'' 1 True () \<lparr>clock = 0, trace = []\<rparr> =
   (Inl (Raised ''rejected''),
    \<lparr>clock = 0,
     trace = [ClientPublish ''a'' ''hello'' 1 True (),
              ClientPublish ''b'' ''hello'' 1 True ()]\<rparr>)"
    by (simp add: stop)
  with a b show ?thesis by blast
qed

subsection \<open>Construction, then publishing\<close>

lemma topics_loop_eq:
  "topics_loop ts self_topics s =
     (self_topics @ ts,
      s\<lparr>trace := trace s @
          map (\<lambda>topic. LogInfo (''MQTTSender will publish to topic '' @ [CHR 0x22] @ topic
                 @ [CHR 0x22])) ts\<rparr>)"
  by (induction ts arbitrary: self_topics s) (simp_all add: emit_def)

lemma trace_publish_loop:
  "\<exists>evs. trace (snd (publish_loop raises ts payload qos retain properties s)) = trace s @ evs"
proof (induction ts arbitrary: s)
  case Nil
  then show ?case by simp
next
  case (Cons topic ts)
  let ?s1 = "emit (ClientPublish topic payload qos retain properties) s"
  show ?case
  proof (cases "raises topic payload qos retain properties")
    case None
    then have "publish_loop raises (topic # ts) payload qos retain properties s =
        publish_loop raises ts payload qos retain properties ?s1"
      by (simp add: underscore_publish_def)
    moreover from Cons.IH [of ?s1] obtain evs where
      "trace (snd (publish_loop raises ts payload qos retain properties ?s1)) = trace ?s1 @ evs" ..
    ultimately have "trace (snd (publish_loop raises (topic # ts) payload qos retain properties s))
        = trace s @ (ClientPublish topic payload qos retain properties # evs)"
      by (simp add: emit_def)
    then show ?thesis ..
  next
    case (Some e)
    then have "trace (snd (publish_loop raises (topic # ts) payload qos retain properties s))
        = trace s @ [ClientPublish topic payload qos retain properties]"
      by (simp add: underscore_publish_def emit_def)
    then show ?thesis ..
  qed
qed

lemma trace_publish_requests:
  "\<exists>evs. trace (snd (publish_requests raises self requests s)) = trace s @ evs"
proof (induction requests arbitrary: s)
  case Nil
  then show ?case by simp
next
  case (Cons request requests)
  obtain payload qos retain properties where
    request: "request = (payload, qos, retain, properties)"
    by (cases request) auto
  obtain r s1 where p: "publish raises self payload qos retain properties s = (r, s1)"
    by (cases "publish raises self payload qos retain properties s") auto
  obtain evs where evs: "trace s1 = trace s @ evs"
    using trace_publish_loop [of raises "topics self" payload qos retain properties s] p
    by (auto simp: publish_def)
  show ?case
  proof (cases r)
    case (Inl e)
    with p request evs show ?thesis by simp
  next
    case (Inr u)
    from Cons.IH [of s1] obtain evs' where
      "trace (snd (publish_requests raises self requests s1)) = trace s1 @ evs'" ..
    with Inr p request evs have
      "trace (snd (publish_requests raises self (request # requests) s)) = trace s @ (evs @ evs')"
      by simp
    then show ?thesis ..
  qed
qed

text \<open>
  The constructor either ends in an exception, having made no publish call, or hands
  out the object with the configured topics; in the second case the last calls before
  the topics are populated are the liveness query that answered true, \<^verbatim>\<open>loop_stop\<close>
  and the registration of the callback.
\<close>

lemma MQTTSender_init_cases:
  fixes connect_raises :: "string \<Rightarrow> string \<Rightarrow> string \<Rightarrow> int \<Rightarrow> 'e option"
    and s :: "('pl, 'pr) world"
  assumes "MQTTSender_init connect_raises live env s = (r, s')"
  shows "(\<exists>e evs. r = Inl e \<and> trace s' = trace s @ evs \<and> (\<forall>e\<in>set evs. \<not> is_publish e))
       \<or> (r = Inr \<lparr>client_type = ''MQTTSender'', topics = mqtt_sender_topics env\<rparr> \<and>
          (\<exists>evs. trace s' = trace s @ evs @ [IsConnected True, LoopStop True, SetOnPublish] @
                   map (\<lambda>topic. LogInfo (''MQTTSender will publish to topic '' @ [CHR 0x22]
                          @ topic @ [CHR 0x22])) (mqtt_sender_topics env) \<and>
                 (\<forall>e\<in>set evs. \<not> is_publish e)))"
proof -
  let ?msg = "LogInfo (''MQTTSender setting connection to '' @ mqtt_sender_hostname env @ '':''
                 @ str_int (mqtt_sender_port env) @ '' with username ''
                 @ mqtt_sender_username env @ '' and password '' @ mqtt_sender_password env)"
  let ?con = "Connect (mqtt_sender_username env) (mqtt_sender_password env)
                (mqtt_sender_hostname env) (mqtt_sender_port env)"
  let ?s2 = "emit ?con (emit ?msg s)"
  let ?s3 = "emit (LogInfo ''MQTTSender now testing connection...'') ?s2"
  have t3: "trace ?s3 = trace s @ [?msg, ?con, LogInfo ''MQTTSender now testing connection...'']"
    by (simp add: emit_def)
  show ?thesis
  proof (cases "connect_raises (mqtt_sender_username env) (mqtt_sender_password env)
                (mqtt_sender_hostname env) (mqtt_sender_port env)")
    case (Some e)
    with assms have "r = Inl (Raised e)" and "s' = ?s2"
      by (simp_all add: MQTTSender_init_def underscore_connect_def Let_def)
    then have "r = Inl (Raised e) \<and> trace s' = trace s @ [?msg, ?con] \<and>
        (\<forall>e\<in>set [?msg, ?con]. \<not> is_publish e)"
      by (simp add: emit_def)
    then show ?thesis by blast
  next
    case None
    define rt :: "'e exn + unit" where
      "rt = fst (test_connection live (mqtt_client_connection_timeout_seconds env) ?s3)"
    define s4 where
      "s4 = snd (test_connection live (mqtt_client_connection_timeout_seconds env) ?s3 ::
                  ('e exn + unit) \<times> ('pl, 'pr) world)"
    have tc: "test_connection live (mqtt_client_connection_timeout_seconds env) ?s3 = (rt, s4)"
      by (simp add: rt_def s4_def)
    from test_connection_cases [OF tc] show ?thesis
    proof
      assume "rt = Inr () \<and> live (clock s4) \<and>
          (\<exists>evs. trace s4 = trace ?s3 @ evs @ [IsConnected True, LoopStop True] \<and>
                 (\<forall>e\<in>set evs. \<not> is_loop_stop e \<and> \<not> is_publish e))"
      then obtain evs where rt: "rt = Inr ()"
        and t4: "trace s4 = trace ?s3 @ evs @ [IsConnected True, LoopStop True]"
        and ok: "\<forall>e\<in>set evs. \<not> is_loop_stop e \<and> \<not> is_publish e"
        by blast
      from assms None tc rt have
        r: "r = Inr \<lparr>client_type = ''MQTTSender'', topics = mqtt_sender_topics env\<rparr>"
        and s': "s' = snd (topics_loop (mqtt_sender_topics env) [] (emit SetOnPublish s4))"
        by (simp_all add: MQTTSender_init_def underscore_connect_def Let_def topics_loop_eq)
      have "trace s' = trace s @
          ([?msg, ?con, LogInfo ''MQTTSender now testing connection...''] @ evs) @
          [IsConnected True, LoopStop True, SetOnPublish] @
          map (\<lambda>topic. LogInfo (''MQTTSender will publish to topic '' @ [CHR 0x22]
                          @ topic @ [CHR 0x22])) (mqtt_sender_topics env)"
        using s' t4 t3 by (simp add: topics_loop_eq emit_def)
      moreover have "\<forall>e\<in>set ([?msg, ?con, LogInfo ''MQTTSender now testing connection...'']
          @ evs). \<not> is_publish e"
        using ok by simp
      ultimately show ?thesis using r by blast
    next
      assume "rt = Inl (SystemExit (- 1)) \<and> \<not> live (clock s4) \<and>
          (\<exists>evs. trace s4 = trace ?s3 @ evs @
                   [IsConnected False, LogCritical ''MQTTSender timed out while connecting''] \<and>
                 (\<forall>e\<in>set evs. \<not> is_loop_stop e \<and> \<not> is_publish e))"
      then obtain evs where rt: "rt = Inl (SystemExit (- 1))"
        and t4: "trace s4 = trace ?s3 @ evs @
                   [IsConnected False, LogCritical ''MQTTSender timed out while connecting'']"
        and ok: "\<forall>e\<in>set evs. \<not> is_loop_stop e \<and> \<not> is_publish e"
        by blast
      from assms None tc rt have r: "r = Inl (SystemExit (- 1))" and s': "s' = s4"
        by (simp_all add: MQTTSender_init_def underscore_connect_def Let_def)
      have "trace s' = trace s @
          ([?msg, ?con, LogInfo ''MQTTSender now testing connection...''] @ evs @
           [IsConnected False, LogCritical ''MQTTSender timed out while connecting''])"
        using s' t4 t3 by simp
      moreover have "\<forall>e\<in>set ([?msg, ?con, LogInfo ''MQTTSender now testing connection...'']
          @ evs @ [IsConnected False, LogCritical ''MQTTSender timed out while connecting'']).
          \<not> is_publish e"
        using ok by simp
      ultimately show ?thesis using r by blast
    qed
  qed
qed

lemma example_process:
  "process connect_ok (live_from 2) accepts_all example_environment
     [(''hello'', 0, False, ())] \<lparr>clock = 0, trace = []\<rparr> =
   (Inr (),
    \<lparr>clock = 2,
     trace =
       [LogInfo ''MQTTSender setting connection to broker:1883 with username user and password secret'',
        Connect ''user'' ''secret'' ''broker'' 1883,
        LogInfo ''MQTTSender now testing connection...'',
        LoopStart, Sleep 1, IsConnected False, Sleep 1, IsConnected True,
        LogDebug ''MQTTSender connected after 1 seconds'',
        IsConnected True, LoopStop True, SetOnPublish,
        LogInfo (''MQTTSender will publish to topic '' @ [CHR 0x22] @ ''sensors/temp'' @ [CHR 0x22]),
        ClientPublish ''sensors/temp'' ''hello'' 0 False ()]\<rparr>)"
  by (simp add: process_def MQTTSender_init_def example_environment_def underscore_connect_def
      connect_ok_def accepts_all_def publish_def underscore_publish_def emit_def
      str_int_def str_nat.simps digit_char_def
      test_connection_def range_py_def upt_conv_Cons is_connected_def sleep_def live_from_def
      Let_def numeral_2_eq_2)

text \<open>
  C8. In a process that starts with no call made, constructs the sender and then
  publishes through it, every transport publish call comes after a liveness query
  that answered true. And whenever the constructor hands out an object, its topic list
  is the configured one and was populated after that query: the trace of the
  construction ends with the query, \<^verbatim>\<open>loop_stop\<close>, the registration of the callback and
  one log line per topic, with no publish call before them. When the readiness check
  does not confirm liveness the constructor ends in \<^verbatim>\<open>SystemExit\<close>, no object exists and
  the process makes no publish call.
\<close>

theorem never_publishes_before_live:
  fixes connect_raises :: "string \<Rightarrow> string \<Rightarrow> string \<Rightarrow> int \<Rightarrow> 'e option"
    and s' :: "('pl, 'pr) world"
  assumes "process connect_raises live raises env requests \<lparr>clock = c, trace = []\<rparr> = (r, s')"
  shows "(\<forall>i<length (trace s'). is_publish (trace s' ! i) \<longrightarrow>
            (\<exists>j<i. trace s' ! j = IsConnected True))
       \<and> (\<forall>self s1.
            MQTTSender_init connect_raises live env \<lparr>clock = c, trace = []\<rparr>
              = (Inr self, (s1 :: ('pl, 'pr) world)) \<longrightarrow>
            topics self = mqtt_sender_topics env \<and>
            (\<exists>evs. trace s1 =
                 evs @ [IsConnected True, LoopStop True, SetOnPublish] @
                 map (\<lambda>topic. LogInfo (''MQTTSender will publish to topic '' @ [CHR 0x22]
                        @ topic @ [CHR 0x22])) (mqtt_sender_topics env) \<and>
               (\<forall>e\<in>set evs. \<not> is_publish e)))"
proof (intro conjI allI impI)
  fix i
  assume i: "i < length (trace s')" and p: "is_publish (trace s' ! i)"
  let ?w = "\<lparr>clock = c, trace = []\<rparr> :: ('pl, 'pr) world"
  define ri where "ri = fst (MQTTSender_init connect_raises live env ?w)"
  define s1 where "s1 = snd (MQTTSender_init connect_raises live env ?w)"
  have init: "MQTTSender_init connect_raises live env ?w = (ri, s1)"
    by (simp add: ri_def s1_def)
  from MQTTSender_init_cases [OF init]
  show "\<exists>j<i. trace s' ! j = IsConnected True"
  proof
    assume "\<exists>e evs. ri = Inl e \<and> trace s1 = trace ?w @ evs \<and> (\<forall>e\<in>set evs. \<not> is_publish e)"
    then obtain e evs where ri: "ri = Inl e" and t1: "trace s1 = evs"
      and ok: "\<forall>e\<in>set evs. \<not> is_publish e"
      by auto
    from assms init ri have "s' = s1" by (simp add: process_def)
    with t1 ok i have "\<not> is_publish (trace s' ! i)" by simp
    with p show ?thesis by simp
  next
    assume "ri = Inr \<lparr>client_type = ''MQTTSender'', topics = mqtt_sender_topics env\<rparr> \<and>
          (\<exists>evs. trace s1 = trace ?w @ evs @ [IsConnected True, LoopStop True, SetOnPublish] @
                   map (\<lambda>topic. LogInfo (''MQTTSender will publish to topic '' @ [CHR 0x22]
                          @ topic @ [CHR 0x22])) (mqtt_sender_topics env) \<and>
                 (\<forall>e\<in>set evs. \<not> is_publish e))"
    then obtain evs where
      ri: "ri = Inr \<lparr>client_type = ''MQTTSender'', topics = mqtt_sender_topics env\<rparr>"
      and t1: "trace s1 = evs @ [IsConnected True, LoopStop True, SetOnPublish] @
                   map (\<lambda>topic. LogInfo (''MQTTSender will publish to topic '' @ [CHR 0x22]
                          @ topic @ [CHR 0x22])) (mqtt_sender_topics env)"
      and ok: "\<forall>e\<in>set evs. \<not> is_publish e"
      by auto
    from assms init ri have s': "s' = snd (publish_requests raises
        \<lparr>client_type = ''MQTTSender'', topics = mqtt_sender_topics env\<rparr> requests s1)"
      by (simp add: process_def)
    obtain more where "trace s' = trace s1 @ more"
      using trace_publish_requests [of raises _ requests s1] s' by blast
    with t1 have t: "trace s' = evs @ IsConnected True # ([LoopStop True, SetOnPublish] @
                   map (\<lambda>topic. LogInfo (''MQTTSender will publish to topic '' @ [CHR 0x22]
                          @ topic @ [CHR 0x22])) (mqtt_sender_topics env) @ more)"
      by simp
    have "\<not> i < length evs"
    proof
      assume "i < length evs"
      then have "trace s' ! i = evs ! i" and "evs ! i \<in> set evs"
        using t by (simp_all add: nth_append)
      with ok p show False by simp
    qed
    moreover have "\<not> i = length evs"
    proof
      assume "i = length evs"
      then have "trace s' ! i = IsConnected True" using t by simp
      with p show False by simp
    qed
    ultimately have "length evs < i" by simp
    moreover have "trace s' ! length evs = IsConnected True" using t by simp
    ultimately show ?thesis by blast
  qed
next
  fix self and s1 :: "('pl, 'pr) world"
  assume init: "MQTTSender_init connect_raises live env \<lparr>clock = c, trace = []\<rparr> = (Inr self, s1)"
  from MQTTSender_init_cases [OF init]
  have *: "Inr self = (Inr \<lparr>client_type = ''MQTTSender'', topics = mqtt_sender_topics env\<rparr>
              :: 'e exn + sender) \<and>
          (\<exists>evs. trace s1 = evs @ [IsConnected True, LoopStop True, SetOnPublish] @
                   map (\<lambda>topic. LogInfo (''MQTTSender will publish to topic '' @ [CHR 0x22]
                          @ topic @ [CHR 0x22])) (mqtt_sender_topics env) \<and>
                 (\<forall>e\<in>set evs. \<not> is_publish e))"
    by auto
  then show "topics self = mqtt_sender_topics env" by auto
  from * show "\<exists>evs. trace s1 =
                 evs @ [IsConnected True, LoopStop True, SetOnPublish] @
                 map (\<lambda>topic. LogInfo (''MQTTSender will publish to topic '' @ [CHR 0x22]
                        @ topic @ [CHR 0x22])) (mqtt_sender_topics env) \<and>
               (\<forall>e\<in>set evs. \<not> is_publish e)"
    by blast
qed

theorem never_publishes_before_live_witness:
  "13 < length (trace (snd (process connect_ok (live_from 2) accepts_all example_environment
      [(''hello'', 0, False, ())] \<lparr>clock = 0, trace = []\<rparr>))) \<and>
   is_publish (trace (snd (process connect_ok (live_from 2) accepts_all example_environment
      [(''hello'', 0, False, ())] \<lparr>clock = 0, trace = []\<rparr>)) ! 13) \<and>
   (\<exists>j<13. trace (snd (process connect_ok (live_from 2) accepts_all example_environment
      [(''hello'', 0, False, ())] \<lparr>clock = 0, trace = []\<rparr>)) ! j = IsConnected True)"
proof -
  let ?P = "process connect_ok (live_from 2) accepts_all example_environment
      [(''hello'', 0, False, ())] \<lparr>clock = 0, trace = []\<rparr>"
  have h: "?P = (fst ?P, snd ?P)" by simp
  have a: "13 < length (trace (snd ?P))" by (simp add: example_process)
  have b: "is_publish (trace (snd ?P) ! 13)" by (simp add: example_process)
  from never_publishes_before_live [OF h] a b
  have "\<exists>j<13. trace (snd ?P) ! j = IsConnected True" by blast
  with a b show ?thesis by blast
qed

end
